theory Spec2Isabelle
  imports Complex_Main
begin

section \<open>Python primitives used by the negotiation code\<close>

text \<open>
  The two source files, \<^verbatim>\<open>negotiation_agent_code_warriors.py\<close> and
  \<^verbatim>\<open>buyer_agent_team_code_warriors.py\<close>, compute with unbounded Python integers,
  with IEEE-754 doubles (every price threshold is an integer multiplied by a float
  literal) and with strings. Exceptions are values of \<open>py_error\<close>; a function that can
  raise returns \<open>py_error + 'a\<close>, with \<open>Inl\<close> for the exception.
\<close>

datatype py_error = OverflowError | ZeroDivisionError | ValueError | TypeError | ExternalError

definition and_then :: "py_error + 'a \<Rightarrow> ('a \<Rightarrow> py_error + 'b) \<Rightarrow> py_error + 'b" where
  "and_then m f = (case m of Inl err \<Rightarrow> Inl err | Inr v \<Rightarrow> f v)"

subsection \<open>Doubles\<close>

text \<open>
  A double is \<open>Finite m e\<close>, standing for the number \<open>m * 2 ^ e\<close>, an infinity or
  NaN. The sign of a zero is not kept: it changes neither \<^verbatim>\<open>int()\<close> nor a comparison.
  \<open>round_double m e\<close> is the double nearest to \<open>m * 2 ^ e\<close>, ties to even, with 53
  bits of precision, the smallest exponent \<open>-1074\<close> of the subnormal range and overflow
  to an infinity from \<open>2 ^ 1024\<close> on.
\<close>

datatype pyfloat = Finite int int | PosInf | NegInf | NaN

function bitlen :: "int \<Rightarrow> nat" where
  "bitlen n = (if n \<le> 0 then 0 else Suc (bitlen (n div 2)))"
  by pat_completeness auto
termination
  by (relation "measure nat") auto

declare bitlen.simps [simp del]

definition rne_shift :: "int \<Rightarrow> nat \<Rightarrow> int" where
  "rne_shift p s =
     (let q = p div 2 ^ s; r = p mod 2 ^ s
      in if 2 ^ s < 2 * r \<or> (2 * r = 2 ^ s \<and> odd q) then q + 1 else q)"

definition round_double :: "int \<Rightarrow> int \<Rightarrow> pyfloat" where
  "round_double m e =
     (let a = \<bar>m\<bar>;
          ulp = max (int (bitlen a) + e - 53) (- 1074);
          q = (if ulp \<le> e then a else rne_shift a (nat (ulp - e)));
          x = (if ulp \<le> e then e else ulp)
      in if 1024 < int (bitlen q) + x then (if m < 0 then NegInf else PosInf)
         else Finite (if m < 0 then - q else q) x)"

text \<open>Float multiplication \<^verbatim>\<open>a * b\<close>: it never raises, an overflow is an infinity.\<close>

fun fmul :: "pyfloat \<Rightarrow> pyfloat \<Rightarrow> pyfloat" where
  "fmul (Finite m1 e1) (Finite m2 e2) = round_double (m1 * m2) (e1 + e2)"
| "fmul NaN _ = NaN"
| "fmul _ NaN = NaN"
| "fmul (Finite m e) PosInf = (if m = 0 then NaN else if 0 < m then PosInf else NegInf)"
| "fmul (Finite m e) NegInf = (if m = 0 then NaN else if 0 < m then NegInf else PosInf)"
| "fmul PosInf (Finite m e) = (if m = 0 then NaN else if 0 < m then PosInf else NegInf)"
| "fmul NegInf (Finite m e) = (if m = 0 then NaN else if 0 < m then NegInf else PosInf)"
| "fmul PosInf PosInf = PosInf"
| "fmul PosInf NegInf = NegInf"
| "fmul NegInf PosInf = NegInf"
| "fmul NegInf NegInf = PosInf"

text \<open>
  The conversion of an int operand to a float, which \<^verbatim>\<open>x * 0.9\<close> does first: it rounds
  to nearest, ties to even, and raises OverflowError (int too large to convert to
  float) when the rounded value does not fit.
\<close>

definition float_of_int :: "int \<Rightarrow> py_error + pyfloat" where
  "float_of_int x =
     (case round_double x 0 of
        Finite m e \<Rightarrow> Inr (Finite m e)
      | _ \<Rightarrow> Inl OverflowError)"

text \<open>\<^verbatim>\<open>x * c\<close> for an int \<open>x\<close> and a float \<open>c\<close>.\<close>

definition int_mul_float :: "int \<Rightarrow> pyfloat \<Rightarrow> py_error + pyfloat" where
  "int_mul_float x c = and_then (float_of_int x) (\<lambda>f. Inr (fmul f c))"

text \<open>\<^verbatim>\<open>int(f)\<close>: truncation towards zero; an infinity raises OverflowError, NaN ValueError.\<close>

fun py_int :: "pyfloat \<Rightarrow> py_error + int" where
  "py_int (Finite m e) =
     Inr (if 0 \<le> e then m * 2 ^ nat e
          else if 0 \<le> m then m div 2 ^ nat (- e)
          else - ((- m) div 2 ^ nat (- e)))"
| "py_int PosInf = Inl OverflowError"
| "py_int NegInf = Inl OverflowError"
| "py_int NaN = Inl ValueError"

text \<open>\<^verbatim>\<open>int(x * c)\<close>.\<close>

definition int_of_mul :: "int \<Rightarrow> pyfloat \<Rightarrow> py_error + int" where
  "int_of_mul x c = and_then (int_mul_float x c) py_int"

text \<open>
  \<^verbatim>\<open>x <= f\<close> and \<^verbatim>\<open>x >= f\<close> for an int \<open>x\<close> and a float \<open>f\<close>: Python compares the two
  numbers exactly, without converting the int.
\<close>

fun int_le_float :: "int \<Rightarrow> pyfloat \<Rightarrow> bool" where
  "int_le_float x (Finite m e) =
     (if 0 \<le> e then x \<le> m * 2 ^ nat e else x * 2 ^ nat (- e) \<le> m)"
| "int_le_float x PosInf = True"
| "int_le_float x NegInf = False"
| "int_le_float x NaN = False"

fun int_ge_float :: "int \<Rightarrow> pyfloat \<Rightarrow> bool" where
  "int_ge_float x (Finite m e) =
     (if 0 \<le> e then m * 2 ^ nat e \<le> x else m \<le> x * 2 ^ nat (- e))"
| "int_ge_float x PosInf = False"
| "int_ge_float x NegInf = True"
| "int_ge_float x NaN = False"

text \<open>
  \<^verbatim>\<open>a / b\<close> for two ints: the correctly rounded quotient. The quotient is computed to
  more than 55 bits and the remainder is kept as a sticky last bit, so that rounding
  the result is rounding the exact quotient. A zero divisor raises ZeroDivisionError,
  a quotient too large for a float OverflowError.
\<close>

definition int_truediv :: "int \<Rightarrow> int \<Rightarrow> py_error + pyfloat" where
  "int_truediv a b =
     (if b = 0 then Inl ZeroDivisionError
      else
        let k = bitlen \<bar>b\<bar> + 55;
            q = (\<bar>a\<bar> * 2 ^ k) div \<bar>b\<bar>;
            r = (\<bar>a\<bar> * 2 ^ k) mod \<bar>b\<bar>;
            m = 2 * q + (if r = 0 then 0 else 1)
        in case round_double (if (a < 0) = (b < 0) then m else - m) (- int k - 1) of
             Finite m' e' \<Rightarrow> Inr (Finite m' e')
           | _ \<Rightarrow> Inl OverflowError)"

text \<open>The float literals of the source, each the double nearest to the decimal.\<close>

definition lit_0_05 :: pyfloat where "lit_0_05 = Finite 3602879701896397 (- 56)"
definition lit_0_1 :: pyfloat where "lit_0_1 = Finite 3602879701896397 (- 55)"
definition lit_0_15 :: pyfloat where "lit_0_15 = Finite 5404319552844595 (- 55)"
definition lit_0_65 :: pyfloat where "lit_0_65 = Finite 5854679515581645 (- 53)"
definition lit_0_8 :: pyfloat where "lit_0_8 = Finite 3602879701896397 (- 52)"
definition lit_0_9 :: pyfloat where "lit_0_9 = Finite 8106479329266893 (- 53)"
definition lit_1_05 :: pyfloat where "lit_1_05 = Finite 4728779608739021 (- 52)"
definition lit_1_1 :: pyfloat where "lit_1_1 = Finite 2476979795053773 (- 51)"
definition lit_1_15 :: pyfloat where "lit_1_15 = Finite 2589569785738035 (- 51)"
definition lit_1_5 :: pyfloat where "lit_1_5 = Finite 3 (- 1)"

text \<open>A Python number that is an int on one path and a float on another.\<close>

datatype py_num = PyInt int | PyFloat pyfloat

subsection \<open>Strings\<close>

text \<open>
  A \<^verbatim>\<open>str\<close> is modelled by its UTF-8 bytes. The texts the code searches in and
  searches for are ASCII, apart from the rupee sign and the typographic apostrophe of
  the message templates, which are written as their three bytes.
\<close>

definition rupee :: string where
  "rupee = [CHR 0xE2, CHR 0x82, CHR 0xB9]"

definition apostrophe :: string where
  "apostrophe = [CHR 0xE2, CHR 0x80, CHR 0x99]"

function digits_of :: "nat \<Rightarrow> string" where
  "digits_of n =
     (if n < 10 then [''0123456789'' ! n]
      else digits_of (n div 10) @ [''0123456789'' ! (n mod 10)])"
  by pat_completeness auto
termination
  by (relation "measure id") auto

declare digits_of.simps [simp del]

text \<open>\<^verbatim>\<open>str(i)\<close>, which is how an f-string formats an int.\<close>

definition str_int :: "int \<Rightarrow> string" where
  "str_int i = (if i < 0 then CHR ''-'' # digits_of (nat (- i)) else digits_of (nat i))"

definition lower_char :: "char \<Rightarrow> char" where
  "lower_char c =
     (case map_of (zip ''ABCDEFGHIJKLMNOPQRSTUVWXYZ'' ''abcdefghijklmnopqrstuvwxyz'') c of
        Some l \<Rightarrow> l
      | None \<Rightarrow> c)"

definition lower :: "string \<Rightarrow> string" where
  "lower s = map lower_char s"

fun startswith :: "string \<Rightarrow> string \<Rightarrow> bool" where
  "startswith s [] = True"
| "startswith [] (p # ps) = False"
| "startswith (c # cs) (p # ps) = (c = p \<and> startswith cs ps)"

text \<open>\<^verbatim>\<open>sub in s\<close>.\<close>

fun str_in :: "string \<Rightarrow> string \<Rightarrow> bool" where
  "str_in sub [] = (sub = [])"
| "str_in sub (c # cs) = (startswith (c # cs) sub \<or> str_in sub cs)"

text \<open>\<^verbatim>\<open>sep.join(xs)\<close>.\<close>

fun join :: "string \<Rightarrow> string list \<Rightarrow> string" where
  "join sep [] = []"
| "join sep [x] = x"
| "join sep (x # y # ys) = x @ sep @ join sep (y # ys)"

section \<open>Data structures\<close>

text \<open>
  The dataclasses \<^verbatim>\<open>Product\<close> and \<^verbatim>\<open>NegotiationContext\<close> and the enum
  \<^verbatim>\<open>DealStatus\<close>, the same in both files. The attributes of a product are never
  read. A message of the conversation, a dict with the keys \<^verbatim>\<open>role\<close> and
  \<^verbatim>\<open>message\<close>, is the pair of the two values.
\<close>

record Product =
  name :: string
  category :: string
  quantity :: int
  quality_grade :: string
  origin :: string
  base_market_price :: int
  attributes :: "(string \<times> string) list"

record NegotiationContext =
  product :: Product
  your_budget :: int
  current_round :: int
  seller_offers :: "int list"
  your_offers :: "int list"
  messages :: "(string \<times> string) list"

datatype DealStatus = ONGOING | ACCEPTED | REJECTED | TIMEOUT

section \<open>The deterministic buyer: negotiation\_agent\_code\_warriors.py\<close>

text \<open>
  \<^verbatim>\<open>YourBuyerAgent\<close> of \<^verbatim>\<open>negotiation_agent_code_warriors.py\<close>. Its only
  effect besides its return value is the draw of \<^verbatim>\<open>random.choice\<close> in
  \<^verbatim>\<open>mirror_and_frame\<close>: the random source is the sequence of its draws, passed in
  and returned with the draws taken removed.
\<close>

type_synonym rng = "nat \<Rightarrow> nat"

definition random_choice :: "rng \<Rightarrow> 'a list \<Rightarrow> 'a \<times> rng" where
  "random_choice g xs = (xs ! (g 0 mod length xs), \<lambda>i. g (Suc i))"

definition anchor_opening_offer :: "NegotiationContext \<Rightarrow> py_error + int" where
  "anchor_opening_offer c =
     and_then (int_of_mul (base_market_price (product c)) lit_0_65)
       (\<lambda>anchor. Inr (min anchor (your_budget c)))"

text \<open>The f-strings of the two methods, and the sentence added from round 8 on.\<close>

definition opening_message :: "int \<Rightarrow> string" where
  "opening_message opening_price =
     ''I'll begin with '' @ rupee @ str_int opening_price @ ''. '' @
     ''It's a figure that respects the market, '' @
     ''yet leaves us room to grow this deal together.''"

definition agreed_message :: "int \<Rightarrow> string" where
  "agreed_message seller_price =
     ''Agreed. '' @ rupee @ str_int seller_price @ '' is a wise foundation for partnership.''"

definition time_pressure :: string where
  "time_pressure = '' Let us not lose time over what already feels inevitable.''"

definition generate_opening_offer :: "NegotiationContext \<Rightarrow> py_error + int \<times> string" where
  "generate_opening_offer c =
     and_then (anchor_opening_offer c)
       (\<lambda>opening_price. Inr (opening_price, opening_message opening_price))"

definition evaluate_batna :: "NegotiationContext \<Rightarrow> int \<Rightarrow> py_error + bool" where
  "evaluate_batna c seller_price =
     and_then (int_mul_float (base_market_price (product c)) lit_0_9)
       (\<lambda>t. Inr (int_le_float seller_price t \<and> seller_price \<le> your_budget c))"

definition concession_pattern :: "NegotiationContext \<Rightarrow> int \<Rightarrow> py_error + int" where
  "concession_pattern c seller_price =
     (let last_offer = (if your_offers c \<noteq> [] then last (your_offers c) else your_budget c)
      in and_then
           (if current_round c < 3 then int_of_mul seller_price lit_0_05
            else if current_round c < 7 then int_of_mul seller_price lit_0_1
            else int_of_mul seller_price lit_0_15)
           (\<lambda>concession.
              let counter_offer = min (last_offer + concession) (your_budget c)
              in Inr (min counter_offer (seller_price - 1))))"

definition key_phrases :: "string list" where
  "key_phrases =
     [''quality'', ''market'', ''best price'', ''value'', ''fair'',
      ''discount'', ''offer'', ''deal'', ''partnership'']"

definition mirror_and_frame :: "rng \<Rightarrow> string \<Rightarrow> int \<Rightarrow> string \<times> rng" where
  "mirror_and_frame g seller_message counter_offer =
     (let mirrored_phrases = filter (\<lambda>phrase. str_in phrase (lower seller_message)) key_phrases;
          mirrored = (if mirrored_phrases \<noteq> []
                      then ''I understand your focus on '' @ join '', '' mirrored_phrases @ ''. ''
                      else []);
          responses =
            [mirrored @ ''I believe '' @ rupee @ str_int counter_offer @
               '' reflects the true value considering all factors.'',
             mirrored @ ''My offer of '' @ rupee @ str_int counter_offer @
               '' is carefully calculated to benefit both parties.'',
             mirrored @ ''Let's move forward with '' @ rupee @ str_int counter_offer @
               '' - a number that respects both market realities and our partnership.'']
      in random_choice g responses)"

definition respond_to_seller_offer ::
  "rng \<Rightarrow> NegotiationContext \<Rightarrow> int \<Rightarrow> string \<Rightarrow> py_error + (DealStatus \<times> int \<times> string) \<times> rng"
where
  "respond_to_seller_offer g c seller_price seller_message =
     and_then (evaluate_batna c seller_price)
       (\<lambda>batna.
          and_then
            (if batna
             then and_then (int_mul_float (base_market_price (product c)) lit_0_9)
                    (\<lambda>t. Inr (int_le_float seller_price t))
             else Inr False)
            (\<lambda>accept.
               if accept
               then Inr ((ACCEPTED, seller_price, agreed_message seller_price), g)
               else
                 and_then (concession_pattern c seller_price)
                   (\<lambda>counter_offer.
                      let (response_msg, g') = mirror_and_frame g seller_message counter_offer;
                          response_msg' =
                            (if 8 \<le> current_round c then response_msg @ time_pressure
                             else response_msg)
                      in Inr ((ONGOING, counter_offer, response_msg'), g'))))"

section \<open>The buyer that consults a language model: buyer\_agent\_team\_code\_warriors.py\<close>

text \<open>
  \<^verbatim>\<open>YourBuyerAgent\<close> of \<^verbatim>\<open>buyer_agent_team_code_warriors.py\<close>. Both methods start
  with \<^verbatim>\<open>import ollama\<close> and \<^verbatim>\<open>ollama.chat(...)\<close>, outside any \<^verbatim>\<open>try\<close>. What the
  service does is not the program's: the outcome of each call is a parameter, either
  an exception (of the import or of the call) or the text \<^verbatim>\<open>str(response)\<close>. The
  prompt only feeds the call and is left out. The environment of this buyer is the
  sequence of the outcomes of its calls.
\<close>

datatype chat_outcome = Raises | Returns string

type_synonym llm = "nat \<Rightarrow> chat_outcome"

definition ollama_chat :: "llm \<Rightarrow> py_error + string \<times> llm" where
  "ollama_chat l =
     (case l 0 of
        Raises \<Rightarrow> Inl ExternalError
      | Returns text \<Rightarrow> Inr (text, \<lambda>i. l (Suc i)))"

text \<open>The character classes \<^verbatim>\<open>\s\<close> and \<^verbatim>\<open>\d\<close> on ASCII text, and \<^verbatim>\<open>str.strip\<close>.\<close>

definition is_space :: "char \<Rightarrow> bool" where
  "is_space c \<longleftrightarrow>
     c \<in> set [CHR 0x09, CHR 0x0A, CHR 0x0B, CHR 0x0C, CHR 0x0D,
                CHR 0x1C, CHR 0x1D, CHR 0x1E, CHR 0x1F, CHR 0x20]"

definition digit_value :: "char \<Rightarrow> int option" where
  "digit_value c = map_of (zip ''0123456789'' [0, 1, 2, 3, 4, 5, 6, 7, 8, 9]) c"

definition is_digit :: "char \<Rightarrow> bool" where
  "is_digit c \<longleftrightarrow> digit_value c \<noteq> None"

text \<open>\<^verbatim>\<open>int(s)\<close> for a string of digits.\<close>

definition int_of_digits :: "string \<Rightarrow> int" where
  "int_of_digits s = foldl (\<lambda>acc c. 10 * acc + (case digit_value c of Some d \<Rightarrow> d | None \<Rightarrow> 0)) 0 s"

definition strip :: "string \<Rightarrow> string" where
  "strip s = rev (dropWhile is_space (rev (dropWhile is_space s)))"

text \<open>
  \<^verbatim>\<open>re.search(key + r"\s*(\d+)", text)\<close>: the first group of the leftmost match. At a
  position the pattern matches when the key stands there and a digit follows the
  white space after it; the group is the longest run of digits.
\<close>

definition number_at :: "string \<Rightarrow> string \<Rightarrow> string option" where
  "number_at key s =
     (if startswith s key
      then let digits = takeWhile is_digit (dropWhile is_space (drop (length key) s))
           in if digits = [] then None else Some digits
      else None)"

fun search_number :: "string \<Rightarrow> string \<Rightarrow> string option" where
  "search_number key [] = number_at key []"
| "search_number key (c # cs) =
     (case number_at key (c # cs) of
        Some digits \<Rightarrow> Some digits
      | None \<Rightarrow> search_number key cs)"

text \<open>
  \<^verbatim>\<open>re.search(r"message:\s*(.+)", text, re.DOTALL)\<close>: the group runs to the end of the
  text. When only white space follows the key, \<^verbatim>\<open>\s*\<close> gives its last character back
  to the group.
\<close>

definition message_at :: "string \<Rightarrow> string option" where
  "message_at s =
     (if startswith s ''message:''
      then let after = drop (length ''message:'') s;
               body = dropWhile is_space after
           in if body \<noteq> [] then Some body
              else if after \<noteq> [] then Some [last after]
              else None
      else None)"

fun search_message :: "string \<Rightarrow> string option" where
  "search_message [] = message_at []"
| "search_message (c # cs) =
     (case message_at (c # cs) of
        Some body \<Rightarrow> Some body
      | None \<Rightarrow> search_message cs)"

text \<open>The messages the two methods fall back on, and the f-strings of an acceptance.\<close>

definition default_opening_message :: string where
  "default_opening_message = ''Let's begin.''"

definition default_message :: string where
  "default_message = ''I'' @ apostrophe @ ''ll consider my next move.''"

definition accepted_message :: "int \<Rightarrow> string" where
  "accepted_message seller_price =
     ''Deal accepted at '' @ rupee @ str_int seller_price @
     ''. You'' @ apostrophe @ ''re lucky I'' @ apostrophe @ ''m closing now.''"

definition fallback_message :: "int \<Rightarrow> string" where
  "fallback_message seller_price =
     ''Fine, I'' @ apostrophe @ ''ll take '' @ rupee @ str_int seller_price @
     ''. Let'' @ apostrophe @ ''s close this now.''"

definition generate_opening_offer_ollama ::
  "llm \<Rightarrow> NegotiationContext \<Rightarrow> py_error + (int \<times> string) \<times> llm"
where
  "generate_opening_offer_ollama l c =
     and_then (ollama_chat l)
       (\<lambda>(text, l').
          and_then (int_of_mul (base_market_price (product c)) lit_0_8)
            (\<lambda>fallback.
               let offer_amount =
                     (case search_number ''offer_amount:'' text of
                        Some digits \<Rightarrow> min (int_of_digits digits) (your_budget c)
                      | None \<Rightarrow> fallback);
                   message =
                     (case search_message text of
                        Some body \<Rightarrow> strip body
                      | None \<Rightarrow> default_opening_message)
               in Inr ((offer_amount, message), l')))"

definition respond_to_seller_offer_ollama ::
  "llm \<Rightarrow> NegotiationContext \<Rightarrow> int \<Rightarrow> string \<Rightarrow> py_error + (DealStatus \<times> int \<times> string) \<times> llm"
where
  "respond_to_seller_offer_ollama l c seller_price seller_message =
     and_then (ollama_chat l)
       (\<lambda>(text, l').
          and_then (int_of_mul (base_market_price (product c)) lit_0_9)
            (\<lambda>fallback.
               let market_price = base_market_price (product c)
               in and_then
                    (if seller_price \<le> your_budget c
                     then if current_round c < 8
                          then and_then (int_mul_float market_price lit_0_9)
                                 (\<lambda>t. Inr (int_le_float seller_price t))
                          else Inr (seller_price \<le> market_price)
                     else Inr False)
                    (\<lambda>accept.
                       if accept
                       then Inr ((ACCEPTED, seller_price, accepted_message seller_price), l')
                       else
                         let counter_offer =
                               (case search_number ''counter_offer:'' text of
                                  Some digits \<Rightarrow> min (int_of_digits digits) (your_budget c)
                                | None \<Rightarrow> fallback);
                             message =
                               (case search_message text of
                                  Some body \<Rightarrow> strip body
                                | None \<Rightarrow> default_message)
                         in if 10 \<le> current_round c \<and> seller_price \<le> your_budget c
                            then Inr ((ACCEPTED, seller_price, fallback_message seller_price), l')
                            else Inr ((ONGOING, counter_offer, message), l'))))"

section \<open>The mock seller and the driver\<close>

text \<open>
  \<^verbatim>\<open>MockSellerAgent\<close> and \<^verbatim>\<open>run_negotiation_test\<close>, the same in both files.
\<close>

record MockSellerAgent =
  min_price :: int
  personality :: string

text \<open>The f-strings of the seller.\<close>

definition asking_message :: "Product \<Rightarrow> int \<Rightarrow> string" where
  "asking_message p price =
     ''These are premium '' @ quality_grade p @ '' grade '' @ name p @
     ''. I'm asking '' @ rupee @ str_int price @ ''.''"

definition deal_message :: "int \<Rightarrow> string" where
  "deal_message buyer_offer = ''You have a deal at '' @ rupee @ str_int buyer_offer @ ''!''"

definition final_offer_message :: "int \<Rightarrow> string" where
  "final_offer_message counter =
     ''Final offer: '' @ rupee @ str_int counter @ ''. Take it or leave it.''"

definition come_down_message :: "int \<Rightarrow> string" where
  "come_down_message counter = ''I can come down to '' @ rupee @ str_int counter @ ''.''"

definition get_opening_price :: "MockSellerAgent \<Rightarrow> Product \<Rightarrow> py_error + int \<times> string" where
  "get_opening_price seller p =
     and_then (int_of_mul (base_market_price p) lit_1_5)
       (\<lambda>price. Inr (price, asking_message p price))"

definition respond_to_buyer ::
  "MockSellerAgent \<Rightarrow> int \<Rightarrow> int \<Rightarrow> py_error + int \<times> string \<times> bool"
where
  "respond_to_buyer seller buyer_offer round_num =
     and_then (int_mul_float (min_price seller) lit_1_1)
       (\<lambda>t.
          if int_ge_float buyer_offer t
          then Inr (buyer_offer, deal_message buyer_offer, True)
          else if 8 \<le> round_num
          then and_then (int_of_mul buyer_offer lit_1_05)
                 (\<lambda>grown.
                    let counter = max (min_price seller) grown
                    in Inr (counter, final_offer_message counter, False))
          else and_then (int_of_mul buyer_offer lit_1_15)
                 (\<lambda>grown.
                    let counter = max (min_price seller) grown
                    in Inr (counter, come_down_message counter, False)))"

text \<open>
  The driver calls the buyer through the two abstract methods of \<^verbatim>\<open>BaseBuyerAgent\<close>.
  A buyer is the pair of the two methods; \<open>'e\<close> is what the buyer reads from its
  environment besides its arguments (the random source, the answers of the external
  service), threaded through the calls.
\<close>

record 'e BaseBuyerAgent =
  opening_method :: "'e \<Rightarrow> NegotiationContext \<Rightarrow> py_error + (int \<times> string) \<times> 'e"
  respond_method ::
    "'e \<Rightarrow> NegotiationContext \<Rightarrow> int \<Rightarrow> string \<Rightarrow> py_error + (DealStatus \<times> int \<times> string) \<times> 'e"

definition YourBuyerAgent :: "rng BaseBuyerAgent" where
  "YourBuyerAgent =
     \<lparr>opening_method = (\<lambda>g c. and_then (generate_opening_offer c) (\<lambda>r. Inr (r, g))),
      respond_method = respond_to_seller_offer\<rparr>"

definition YourBuyerAgent_ollama :: "llm BaseBuyerAgent" where
  "YourBuyerAgent_ollama =
     \<lparr>opening_method = generate_opening_offer_ollama,
      respond_method = respond_to_seller_offer_ollama\<rparr>"

text \<open>The local variables of \<^verbatim>\<open>run_negotiation_test\<close> that the loop reads and writes.\<close>

record 'e loop_state =
  st_context :: NegotiationContext
  st_seller_price :: int
  st_seller_msg :: string
  st_deal_made :: bool
  st_final_price :: "int option"
  st_env :: 'e

text \<open>
  The buyer's turn of a round: the opening offer in the first pass of the loop, the
  answer to the seller's last price and message afterwards. The buyer sees the context
  with the round counter already set.
\<close>

definition buyer_turn ::
  "'e BaseBuyerAgent \<Rightarrow> nat \<Rightarrow> 'e loop_state \<Rightarrow> py_error + (DealStatus \<times> int \<times> string) \<times> 'e"
where
  "buyer_turn agent round_num st =
     (let c1 = (st_context st)\<lparr>current_round := int round_num + 1\<rparr>
      in if round_num = 0
         then and_then (opening_method agent (st_env st) c1)
                (\<lambda>((buyer_offer, buyer_msg), env'). Inr ((ONGOING, buyer_offer, buyer_msg), env'))
         else respond_method agent (st_env st) c1 (st_seller_price st) (st_seller_msg st))"

text \<open>
  One pass through the body of \<^verbatim>\<open>for round_num in range(10)\<close>. The flag returned
  with the state says that the pass ended in \<^verbatim>\<open>break\<close>.
\<close>

definition round_body ::
  "'e BaseBuyerAgent \<Rightarrow> MockSellerAgent \<Rightarrow> nat \<Rightarrow> 'e loop_state \<Rightarrow> py_error + bool \<times> 'e loop_state"
where
  "round_body agent seller round_num st =
     (let c1 = (st_context st)\<lparr>current_round := int round_num + 1\<rparr>
      in and_then (buyer_turn agent round_num st)
           (\<lambda>((status, buyer_offer, buyer_msg), env').
              let c2 = c1\<lparr>your_offers := your_offers c1 @ [buyer_offer],
                          messages := messages c1 @ [(''buyer'', buyer_msg)]\<rparr>
              in if status = ACCEPTED
                 then Inr (True, st\<lparr>st_context := c2, st_env := env', st_deal_made := True,
                                    st_final_price := Some (st_seller_price st)\<rparr>)
                 else
                   and_then (respond_to_buyer seller buyer_offer (int round_num))
                     (\<lambda>(seller_price, seller_msg, seller_accepts).
                        if seller_accepts
                        then Inr (True,
                                  st\<lparr>st_context := c2\<lparr>messages := messages c2 @ [(''seller'', seller_msg)]\<rparr>,
                                     st_seller_price := seller_price, st_seller_msg := seller_msg,
                                     st_env := env', st_deal_made := True,
                                     st_final_price := Some buyer_offer\<rparr>)
                        else Inr (False,
                                  st\<lparr>st_context := c2\<lparr>seller_offers := seller_offers c2 @ [seller_price],
                                                        messages := messages c2 @ [(''seller'', seller_msg)]\<rparr>,
                                     st_seller_price := seller_price, st_seller_msg := seller_msg,
                                     st_env := env'\<rparr>))))"

text \<open>The loop over the round numbers, left at the first \<^verbatim>\<open>break\<close>.\<close>

fun run_rounds ::
  "'e BaseBuyerAgent \<Rightarrow> MockSellerAgent \<Rightarrow> nat list \<Rightarrow> 'e loop_state \<Rightarrow> py_error + 'e loop_state"
where
  "run_rounds agent seller [] st = Inr st"
| "run_rounds agent seller (round_num # rest) st =
     (case round_body agent seller round_num st of
        Inl err \<Rightarrow> Inl err
      | Inr (broke, st') \<Rightarrow> if broke then Inr st' else run_rounds agent seller rest st')"

text \<open>The result dict. \<^verbatim>\<open>final_price\<close> is \<^verbatim>\<open>None\<close> when no deal was made.\<close>

record NegotiationResult =
  deal_made :: bool
  final_price :: "int option"
  rounds :: int
  savings :: int
  savings_pct :: py_num
  below_market_pct :: py_num
  conversation :: "(string \<times> string) list"

text \<open>\<^verbatim>\<open>(a - b) / a * 100\<close>, the two percentages of the result.\<close>

definition percent_below :: "int \<Rightarrow> int \<Rightarrow> py_error + py_num" where
  "percent_below a b =
     and_then (int_truediv (a - b) a)
       (\<lambda>ratio. and_then (float_of_int 100) (\<lambda>hundred. Inr (PyFloat (fmul ratio hundred))))"

definition initial_state ::
  "'e \<Rightarrow> Product \<Rightarrow> int \<Rightarrow> int \<Rightarrow> string \<Rightarrow> 'e loop_state"
where
  "initial_state env p buyer_budget seller_price seller_msg =
     \<lparr>st_context =
        \<lparr>product = p, your_budget = buyer_budget, current_round = 0,
         seller_offers = [seller_price], your_offers = [],
         messages = [(''seller'', seller_msg)]\<rparr>,
      st_seller_price = seller_price, st_seller_msg = seller_msg,
      st_deal_made = False, st_final_price = None, st_env = env\<rparr>"

definition make_result :: "Product \<Rightarrow> int \<Rightarrow> 'e loop_state \<Rightarrow> py_error + NegotiationResult" where
  "make_result p buyer_budget st =
     (if st_deal_made st
      then (case st_final_price st of
              None \<Rightarrow> Inl TypeError
            | Some price \<Rightarrow>
                and_then (percent_below buyer_budget price)
                  (\<lambda>pct. and_then (percent_below (base_market_price p) price)
                     (\<lambda>below.
                        Inr \<lparr>deal_made = True, final_price = Some price,
                             rounds = current_round (st_context st),
                             savings = buyer_budget - price, savings_pct = pct,
                             below_market_pct = below,
                             conversation = messages (st_context st)\<rparr>)))
      else Inr \<lparr>deal_made = False, final_price = st_final_price st,
                rounds = current_round (st_context st),
                savings = 0, savings_pct = PyInt 0, below_market_pct = PyInt 0,
                conversation = messages (st_context st)\<rparr>)"

text \<open>
  \<^verbatim>\<open>run_negotiation_test\<close>, up to the end of the loop: the seller opens, then the
  rounds run. \<open>run_session_upto n\<close> stops the loop after at most \<open>n\<close> passes, so
  that it gives the state the session is in at that moment; the loop of the source is
  \<^verbatim>\<open>range(10)\<close>.
\<close>

definition run_session_upto ::
  "nat \<Rightarrow> 'e BaseBuyerAgent \<Rightarrow> 'e \<Rightarrow> Product \<Rightarrow> int \<Rightarrow> int \<Rightarrow> py_error + 'e loop_state"
where
  "run_session_upto n agent env p buyer_budget seller_min =
     (let seller = \<lparr>min_price = seller_min, personality = ''standard''\<rparr>
      in and_then (get_opening_price seller p)
           (\<lambda>(seller_price, seller_msg).
              run_rounds agent seller [0..<n]
                (initial_state env p buyer_budget seller_price seller_msg)))"

definition run_session ::
  "'e BaseBuyerAgent \<Rightarrow> 'e \<Rightarrow> Product \<Rightarrow> int \<Rightarrow> int \<Rightarrow> py_error + 'e loop_state"
where
  "run_session = run_session_upto 10"

definition run_negotiation_test ::
  "'e BaseBuyerAgent \<Rightarrow> 'e \<Rightarrow> Product \<Rightarrow> int \<Rightarrow> int \<Rightarrow> py_error + NegotiationResult"
where
  "run_negotiation_test agent env p buyer_budget seller_min =
     and_then (run_session agent env p buyer_budget seller_min) (make_result p buyer_budget)"

section \<open>Reading results\<close>

text \<open>
  The status and the price in what a call of \<^verbatim>\<open>respond_to_seller_offer\<close> returned,
  and the fields of a result that the message texts do not enter.
\<close>

definition returned_status ::
  "py_error + (DealStatus \<times> int \<times> string) \<times> 'e \<Rightarrow> py_error + DealStatus" where
  "returned_status r = (case r of Inl err \<Rightarrow> Inl err | Inr ((status, offer, msg), env) \<Rightarrow> Inr status)"

definition returned_offer ::
  "py_error + (DealStatus \<times> int \<times> string) \<times> 'e \<Rightarrow> py_error + int" where
  "returned_offer r = (case r of Inl err \<Rightarrow> Inl err | Inr ((status, offer, msg), env) \<Rightarrow> Inr offer)"

definition outcome ::
  "NegotiationResult \<Rightarrow> bool \<times> int option \<times> int \<times> int \<times> py_num \<times> py_num" where
  "outcome r =
     (deal_made r, final_price r, rounds r, savings r, savings_pct r, below_market_pct r)"

section \<open>Test data\<close>

text \<open>
  The first product of \<^verbatim>\<open>test_your_agent\<close>, whose easy scenario gives the buyer the
  budget 216000 and the seller the minimum 144000, and a context of that scenario in
  a given round, with the buyer's opening offer made and the seller's opening price
  recorded.
\<close>

definition alphonso :: Product where
  "alphonso =
     \<lparr>name = ''Alphonso Mangoes'', category = ''Mangoes'', quantity = 100,
      quality_grade = ''A'', origin = ''Ratnagiri'', base_market_price = 180000,
      attributes = [(''ripeness'', ''optimal''), (''export_grade'', ''True'')]\<rparr>"

definition easy_context :: "int \<Rightarrow> NegotiationContext" where
  "easy_context n =
     \<lparr>product = alphonso, your_budget = 216000, current_round = n,
      seller_offers = [270000], your_offers = [117000], messages = []\<rparr>"


section \<open>Invariants of the loop\<close>

text \<open>
  What the proofs below carry through the rounds: the budget bounds every offer made so
  far and the final price, and before pass \<open>k\<close> of the loop the round counter and the
  number of buyer offers are both \<open>k\<close>, with no deal made yet.
\<close>

definition budget_inv :: "int \<Rightarrow> 'e loop_state \<Rightarrow> bool" where
  "budget_inv B st \<longleftrightarrow>
     your_budget (st_context st) = B \<and>
     (\<forall>x \<in> set (your_offers (st_context st)). x \<le> B) \<and>
     (\<forall>price. st_final_price st = Some price \<longrightarrow> price \<le> B)"

definition round_inv :: "nat \<Rightarrow> 'e loop_state \<Rightarrow> bool" where
  "round_inv k st \<longleftrightarrow>
     current_round (st_context st) = int k \<and>
     length (your_offers (st_context st)) = k \<and>
     \<not> st_deal_made st \<and> st_final_price st = None"

section \<open>Properties\<close>

subsection \<open>Exceptions and the loop\<close>

lemma and_then_Inr:
  "and_then m f = Inr y \<longleftrightarrow> (\<exists>v. m = Inr v \<and> f v = Inr y)"
  by (cases m) (simp_all add: and_then_def)

lemma and_then_Inl:
  "and_then m f = Inl err \<longleftrightarrow> m = Inl err \<or> (\<exists>v. m = Inr v \<and> f v = Inl err)"
  by (cases m) (simp_all add: and_then_def)

lemma anchor_le_budget:
  "anchor_opening_offer c = Inr x \<Longrightarrow> x \<le> your_budget c"
  by (auto simp: anchor_opening_offer_def and_then_Inr)

lemma generate_opening_offer_le_budget:
  "generate_opening_offer c = Inr (x, m) \<Longrightarrow> x \<le> your_budget c"
  by (auto simp: generate_opening_offer_def and_then_Inr dest: anchor_le_budget)

lemma concession_bounds:
  "concession_pattern c sp = Inr x \<Longrightarrow> x \<le> your_budget c \<and> x < sp"
  by (auto simp: concession_pattern_def and_then_Inr Let_def)

lemma respond_to_seller_offer_eq:
  "respond_to_seller_offer g c sp msg =
     (case int_mul_float (base_market_price (product c)) lit_0_9 of
        Inl err \<Rightarrow> Inl err
      | Inr t \<Rightarrow>
          if int_le_float sp t \<and> sp \<le> your_budget c
          then Inr ((ACCEPTED, sp, agreed_message sp), g)
          else (case concession_pattern c sp of
                  Inl err \<Rightarrow> Inl err
                | Inr counter \<Rightarrow>
                    Inr ((ONGOING, counter,
                          (if 8 \<le> current_round c
                           then fst (mirror_and_frame g msg counter) @ time_pressure
                           else fst (mirror_and_frame g msg counter))),
                         snd (mirror_and_frame g msg counter))))"
  by (simp add: respond_to_seller_offer_def evaluate_batna_def and_then_def Let_def
      case_prod_beta split: sum.splits)

lemma respond_to_seller_offer_cases:
  assumes "respond_to_seller_offer g c sp msg = Inr ((status, offer, m), g')"
  obtains t where "status = ACCEPTED" and "offer = sp" and "sp \<le> your_budget c"
      and "int_mul_float (base_market_price (product c)) lit_0_9 = Inr t"
      and "int_le_float sp t"
  | t where "status = ONGOING" and "concession_pattern c sp = Inr offer"
      and "int_mul_float (base_market_price (product c)) lit_0_9 = Inr t"
      and "\<not> (int_le_float sp t \<and> sp \<le> your_budget c)"
  using assms unfolding respond_to_seller_offer_eq
  by (auto split: sum.splits if_splits)

lemma round_body_Inr:
  "round_body agent seller r st = Inr (broke, st') \<longleftrightarrow>
     (\<exists>status offer msg env'.
        buyer_turn agent r st = Inr ((status, offer, msg), env') \<and>
        (let c2 = (st_context st)\<lparr>current_round := int r + 1,
                     your_offers := your_offers (st_context st) @ [offer],
                     messages := messages (st_context st) @ [(''buyer'', msg)]\<rparr>
         in if status = ACCEPTED
            then broke \<and>
                 st' = st\<lparr>st_context := c2, st_env := env', st_deal_made := True,
                          st_final_price := Some (st_seller_price st)\<rparr>
            else \<exists>sp smsg acc.
                   respond_to_buyer seller offer (int r) = Inr (sp, smsg, acc) \<and>
                   (if acc
                    then broke \<and>
                         st' = st\<lparr>st_context := c2\<lparr>messages := messages c2 @ [(''seller'', smsg)]\<rparr>,
                                  st_seller_price := sp, st_seller_msg := smsg,
                                  st_env := env', st_deal_made := True,
                                  st_final_price := Some offer\<rparr>
                    else \<not> broke \<and>
                         st' = st\<lparr>st_context := c2\<lparr>seller_offers := seller_offers c2 @ [sp],
                                                     messages := messages c2 @ [(''seller'', smsg)]\<rparr>,
                                  st_seller_price := sp, st_seller_msg := smsg,
                                  st_env := env'\<rparr>)))"
proof (cases "buyer_turn agent r st")
  case (Inl err)
  then show ?thesis
    by (simp add: round_body_def and_then_def)
next
  case (Inr v)
  obtain status offer msg env' where v: "v = ((status, offer, msg), env')"
    by (cases v) auto
  show ?thesis
  proof (cases "status = ACCEPTED")
    case True
    with Inr v show ?thesis
      by (auto simp: round_body_def and_then_def Let_def)
  next
    case False
    show ?thesis
    proof (cases "respond_to_buyer seller offer (int r)")
      case (Inl err)
      with Inr v False show ?thesis
        by (simp add: round_body_def and_then_def Let_def)
    next
      case answer: (Inr w)
      obtain sp smsg acc where w: "w = (sp, smsg, acc)"
        by (cases w) auto
      show ?thesis
      proof (cases acc)
        case True
        with Inr v False answer w show ?thesis
          by (auto simp: round_body_def and_then_def Let_def)
      next
        case no: False
        with Inr v False answer w show ?thesis
          by (auto simp: round_body_def and_then_def Let_def)
      qed
    qed
  qed
qed

lemma buyer_turn_YourBuyerAgent:
  assumes "buyer_turn YourBuyerAgent r st = Inr ((status, offer, msg), env')"
  shows "offer \<le> your_budget (st_context st) \<and>
         (status = ACCEPTED \<longrightarrow> st_seller_price st \<le> your_budget (st_context st))"
proof (cases "r = 0")
  case True
  with assms show ?thesis
    by (auto simp: buyer_turn_def YourBuyerAgent_def and_then_Inr
        dest: generate_opening_offer_le_budget)
next
  case False
  with assms have
    "respond_to_seller_offer (st_env st) ((st_context st)\<lparr>current_round := int r + 1\<rparr>)
       (st_seller_price st) (st_seller_msg st) = Inr ((status, offer, msg), env')"
    by (simp add: buyer_turn_def YourBuyerAgent_def)
  then show ?thesis
    by (rule respond_to_seller_offer_cases) (auto dest: concession_bounds)
qed

lemma round_body_budget_inv:
  assumes "round_body YourBuyerAgent seller r st = Inr (broke, st')"
    and "budget_inv B st"
  shows "budget_inv B st'"
proof -
  from assms(1) obtain status offer msg env' where
    turn: "buyer_turn YourBuyerAgent r st = Inr ((status, offer, msg), env')"
    unfolding round_body_Inr by blast
  from buyer_turn_YourBuyerAgent [OF turn] assms(2)
  have "offer \<le> B" and "status = ACCEPTED \<longrightarrow> st_seller_price st \<le> B"
    by (simp_all add: budget_inv_def)
  with assms turn show ?thesis
    unfolding round_body_Inr budget_inv_def
    by (auto simp: Let_def split: if_splits)
qed

lemma run_rounds_budget_inv:
  assumes "run_rounds YourBuyerAgent seller rs st = Inr st'"
    and "budget_inv B st"
  shows "budget_inv B st'"
  using assms
proof (induction rs arbitrary: st)
  case Nil
  then show ?case by simp
next
  case (Cons r rs)
  then show ?case
    by (auto split: sum.splits if_splits dest: round_body_budget_inv)
qed

lemma initial_state_budget_inv:
  "budget_inv B (initial_state env p B sp smsg)"
  by (simp add: budget_inv_def initial_state_def)

lemma run_session_upto_Inr:
  "run_session_upto n agent env p B seller_min = Inr st \<longleftrightarrow>
     (\<exists>sp smsg. get_opening_price \<lparr>min_price = seller_min, personality = ''standard''\<rparr> p = Inr (sp, smsg) \<and>
        run_rounds agent \<lparr>min_price = seller_min, personality = ''standard''\<rparr> [0..<n]
          (initial_state env p B sp smsg) = Inr st)"
  by (auto simp: run_session_upto_def and_then_Inr Let_def)

lemma make_result_final_price:
  "make_result p B st = Inr r \<Longrightarrow> final_price r = st_final_price st"
  by (auto simp: make_result_def and_then_Inr split: if_splits option.splits)

text \<open>
  Claim C1 (budget invariant). In every session that \<^verbatim>\<open>run_negotiation_test\<close> runs
  with the deterministic \<^verbatim>\<open>YourBuyerAgent\<close>, every offer the buyer appended to
  \<^verbatim>\<open>your_offers\<close> and the final price of a deal, whichever party accepted, is at most
  the buyer's budget; so is the \<^verbatim>\<open>final_price\<close> of the result.
\<close>

theorem budget_invariant:
  assumes "run_session YourBuyerAgent g p buyer_budget seller_min = Inr st"
  shows "(\<forall>offer \<in> set (your_offers (st_context st)). offer \<le> buyer_budget) \<and>
         (\<forall>price. st_final_price st = Some price \<longrightarrow> price \<le> buyer_budget) \<and>
         (\<forall>r price. make_result p buyer_budget st = Inr r \<longrightarrow> final_price r = Some price \<longrightarrow>
            price \<le> buyer_budget)"
proof -
  from assms have "budget_inv buyer_budget st"
    unfolding run_session_def run_session_upto_Inr
    by (auto intro: run_rounds_budget_inv initial_state_budget_inv)
  then show ?thesis
    by (auto simp: budget_inv_def dest: make_result_final_price)
qed






subsection \<open>The two buyers\<close>

lemma ollama_chat_Inr:
  "ollama_chat l = Inr (text, l') \<longleftrightarrow> l 0 = Returns text \<and> l' = (\<lambda>i. l (Suc i))"
  by (auto simp: ollama_chat_def split: chat_outcome.splits)

lemma ollama_chat_Raises: "l 0 = Raises \<Longrightarrow> ollama_chat l = Inl ExternalError"
  by (simp add: ollama_chat_def)

lemma ollama_chat_Returns:
  "l 0 = Returns text \<Longrightarrow> ollama_chat l = Inr (text, \<lambda>i. l (Suc i))"
  by (simp add: ollama_chat_def)

lemma respond_to_seller_offer_ollama_eq:
  assumes "l 0 = Returns reply"
  shows "respond_to_seller_offer_ollama l c sp msg =
     (case int_mul_float (base_market_price (product c)) lit_0_9 of
        Inl err \<Rightarrow> Inl err
      | Inr t \<Rightarrow>
         (case py_int t of
            Inl err \<Rightarrow> Inl err
          | Inr fallback \<Rightarrow>
              if sp \<le> your_budget c \<and>
                 (if current_round c < 8 then int_le_float sp t
                  else sp \<le> base_market_price (product c))
              then Inr ((ACCEPTED, sp, accepted_message sp), \<lambda>i. l (Suc i))
              else if 10 \<le> current_round c \<and> sp \<le> your_budget c
              then Inr ((ACCEPTED, sp, fallback_message sp), \<lambda>i. l (Suc i))
              else Inr ((ONGOING,
                         (case search_number ''counter_offer:'' reply of
                            Some digits \<Rightarrow> min (int_of_digits digits) (your_budget c)
                          | None \<Rightarrow> fallback),
                         (case search_message reply of
                            Some body \<Rightarrow> strip body
                          | None \<Rightarrow> default_message)),
                        \<lambda>i. l (Suc i))))"
proof -
  have chat: "ollama_chat l = Inr (reply, \<lambda>i. l (Suc i))"
    using assms by (simp add: ollama_chat_def)
  show ?thesis
    by (simp add: respond_to_seller_offer_ollama_def chat
        int_of_mul_def and_then_def Let_def split: sum.splits)
qed

lemma respond_to_seller_offer_ollama_raises:
  "l 0 = Raises \<Longrightarrow> respond_to_seller_offer_ollama l c sp msg = Inl ExternalError"
  by (simp add: respond_to_seller_offer_ollama_def ollama_chat_def and_then_def)


lemma respond_to_seller_offer_ollama_Inr:
  assumes "respond_to_seller_offer_ollama l c sp msg = Inr r"
  obtains reply where "l 0 = Returns reply"
  using assms
  by (cases "l 0") (simp_all add: respond_to_seller_offer_ollama_raises)


text \<open>
  Claim C2 (acceptance correctness), as amended. Either buyer returns ACCEPTED only for
  a seller price within the budget. The deterministic buyer moreover accepts only a
  price that is at most \<^verbatim>\<open>base_market_price * 0.9\<close>, in every round. The buyer that
  consults the language model accepts only a price that is at most
  \<^verbatim>\<open>base_market_price * 0.9\<close> before round 8 and at most the market price in rounds
  8 and 9; from round 10 on the budget is its only condition.
\<close>

theorem acceptance_correctness:
  "(respond_to_seller_offer g c sp msg = Inr ((ACCEPTED, offer, m), g') \<longrightarrow>
      sp \<le> your_budget c \<and>
      (\<exists>t. int_mul_float (base_market_price (product c)) lit_0_9 = Inr t \<and> int_le_float sp t)) \<and>
   (respond_to_seller_offer_ollama l c sp msg = Inr ((ACCEPTED, offer, m), l') \<longrightarrow>
      sp \<le> your_budget c \<and>
      (current_round c < 8 \<longrightarrow>
         (\<exists>t. int_mul_float (base_market_price (product c)) lit_0_9 = Inr t \<and> int_le_float sp t)) \<and>
      (8 \<le> current_round c \<and> current_round c < 10 \<longrightarrow> sp \<le> base_market_price (product c)))"
proof (intro conjI impI)
  assume a: "respond_to_seller_offer g c sp msg = Inr ((ACCEPTED, offer, m), g')"
  from a show "sp \<le> your_budget c"
    by (rule respond_to_seller_offer_cases) simp_all
  from a show "\<exists>t. int_mul_float (base_market_price (product c)) lit_0_9 = Inr t \<and> int_le_float sp t"
    by (rule respond_to_seller_offer_cases) simp_all
next
  assume a: "respond_to_seller_offer_ollama l c sp msg = Inr ((ACCEPTED, offer, m), l')"
  then obtain reply where reply: "l 0 = Returns reply"
    by (rule respond_to_seller_offer_ollama_Inr)
  note eq = a [unfolded respond_to_seller_offer_ollama_eq [where l = l and reply = reply, OF reply]]
  from eq show "sp \<le> your_budget c"
    by (auto split: sum.splits if_splits)
  {
    assume "current_round c < 8"
    with eq show "\<exists>t. int_mul_float (base_market_price (product c)) lit_0_9 = Inr t \<and> int_le_float sp t"
      by (auto split: sum.splits if_splits)
  }
  {
    assume "8 \<le> current_round c \<and> current_round c < 10"
    with eq show "sp \<le> base_market_price (product c)"
      by (auto split: sum.splits if_splits)
  }
qed


text \<open>
  Claim C6 (final-round fallback), as amended. The buyer that consults the language
  model, whenever it returns in round 10 or later with a seller price within the
  budget, returns ACCEPTED at that price. The deterministic buyer has no such
  fallback: in every round it accepts exactly when the seller's price is within the
  budget and at most \<^verbatim>\<open>base_market_price * 0.9\<close>.
\<close>

theorem final_round_fallback:
  "(respond_to_seller_offer_ollama l c sp msg = Inr ((status, offer, m), l') \<longrightarrow>
      10 \<le> current_round c \<longrightarrow> sp \<le> your_budget c \<longrightarrow> status = ACCEPTED \<and> offer = sp) \<and>
   (respond_to_seller_offer g c sp msg = Inr ((status', offer', m'), g') \<longrightarrow>
      (status' = ACCEPTED \<longleftrightarrow>
         sp \<le> your_budget c \<and>
         (\<exists>t. int_mul_float (base_market_price (product c)) lit_0_9 = Inr t \<and> int_le_float sp t)))"
proof (intro conjI impI)
  assume a: "respond_to_seller_offer_ollama l c sp msg = Inr ((status, offer, m), l')"
    and late: "10 \<le> current_round c" and afford: "sp \<le> your_budget c"
  from a obtain reply where reply: "l 0 = Returns reply"
    by (rule respond_to_seller_offer_ollama_Inr)
  note eq = a [unfolded respond_to_seller_offer_ollama_eq [where l = l and reply = reply, OF reply]]
  from eq late afford show "status = ACCEPTED" and "offer = sp"
    by (auto split: sum.splits if_splits)
next
  assume a: "respond_to_seller_offer g c sp msg = Inr ((status', offer', m'), g')"
  from a show "status' = ACCEPTED \<longleftrightarrow>
         sp \<le> your_budget c \<and>
         (\<exists>t. int_mul_float (base_market_price (product c)) lit_0_9 = Inr t \<and> int_le_float sp t)"
    by (rule respond_to_seller_offer_cases) auto
qed


section \<open>The claims at concrete inputs\<close>

text \<open>
  The float products that the examples below need, each computed once, and the
  equations that run a call or a session on them. The message texts stay folded.
\<close>

lemma and_then_Inr_eval: "and_then (Inr v) f = f v"
  by (simp add: and_then_def)

lemma and_then_Inl_eval: "and_then (Inl err) f = Inl err"
  by (simp add: and_then_def)

lemma and_then_weak_cong: "m = m' \<Longrightarrow> and_then m f = and_then m' f"
  by simp

lemmas float_eval = int_of_mul_def int_mul_float_def float_of_int_def round_double_def
  rne_shift_def int_truediv_def percent_below_def bitlen.simps Let_def and_then_def
  lit_0_05_def lit_0_1_def lit_0_15_def lit_0_65_def lit_0_8_def lit_0_9_def
  lit_1_05_def lit_1_1_def lit_1_15_def lit_1_5_def

lemma mul_180000_0_9: "int_mul_float 180000 lit_0_9 = Inr (Finite 5566277615616000 (- 35))"
  by (simp add: float_eval cong: let_weak_cong)

lemma mul_1_0_9: "int_mul_float 1 lit_0_9 = Inr (Finite 8106479329266893 (- 53))"
  by (simp add: float_eval cong: let_weak_cong)

lemma mul_144000_1_1: "int_mul_float 144000 lit_1_1 = Inr (Finite 5442582557491200 (- 35))"
  by (simp add: float_eval cong: let_weak_cong)

lemma mul_147600_1_1: "int_mul_float 147600 lit_1_1 = Inr (Finite 5578647121428480 (- 35))"
  by (simp add: float_eval cong: let_weak_cong)

lemma mul_150000_1_1: "int_mul_float 150000 lit_1_1 = Inr (Finite 5669356830720000 (- 35))"
  by (simp add: float_eval cong: let_weak_cong)

lemma int_180000_1_5: "int_of_mul 180000 lit_1_5 = Inr 270000"
  by (simp add: float_eval cong: let_weak_cong)

lemma int_180000_0_65: "int_of_mul 180000 lit_0_65 = Inr 117000"
  by (simp add: float_eval cong: let_weak_cong)

lemma int_117000_1_15: "int_of_mul 117000 lit_1_15 = Inr 134550"
  by (simp add: float_eval cong: let_weak_cong)

lemma int_100000_1_15: "int_of_mul 100000 lit_1_15 = Inr 114999"
  by (simp add: float_eval cong: let_weak_cong)

lemma int_100000_1_05: "int_of_mul 100000 lit_1_05 = Inr 105000"
  by (simp add: float_eval cong: let_weak_cong)

lemma int_0_1_15: "int_of_mul 0 lit_1_15 = Inr 0"
  by (simp add: float_eval cong: let_weak_cong)

lemma int_0_1_05: "int_of_mul 0 lit_1_05 = Inr 0"
  by (simp add: float_eval cong: let_weak_cong)

lemma int_150000_0_05: "int_of_mul 150000 lit_0_05 = Inr 7500"
  by (simp add: float_eval cong: let_weak_cong)

lemma int_150000_0_1: "int_of_mul 150000 lit_0_1 = Inr 15000"
  by (simp add: float_eval cong: let_weak_cong)

lemma int_150000_0_15: "int_of_mul 150000 lit_0_15 = Inr 22500"
  by (simp add: float_eval cong: let_weak_cong)

lemma int_144000_0_05: "int_of_mul 144000 lit_0_05 = Inr 7200"
  by (simp add: float_eval cong: let_weak_cong)

lemma int_144000_0_1: "int_of_mul 144000 lit_0_1 = Inr 14400"
  by (simp add: float_eval cong: let_weak_cong)

lemma int_144000_0_15: "int_of_mul 144000 lit_0_15 = Inr 21600"
  by (simp add: float_eval cong: let_weak_cong)

lemma int_170000_0_15: "int_of_mul 170000 lit_0_15 = Inr 25500"
  by (simp add: float_eval cong: let_weak_cong)

lemma int_1_0_05: "int_of_mul 1 lit_0_05 = Inr 0"
  by (simp add: float_eval cong: let_weak_cong)

lemma percent_216000_144000:
  "percent_below 216000 144000 = Inr (PyFloat (Finite 4691249611844266 (- 47)))"
  by (simp add: float_eval cong: let_weak_cong)

lemma percent_180000_144000:
  "percent_below 180000 144000 = Inr (PyFloat (Finite 5629499534213120 (- 48)))"
  by (simp add: float_eval cong: let_weak_cong)

lemma percent_0: "percent_below 0 0 = Inl ZeroDivisionError"
  by (simp add: percent_below_def int_truediv_def and_then_def)

lemmas float_facts = mul_180000_0_9 mul_1_0_9 mul_144000_1_1 mul_147600_1_1 mul_150000_1_1
  int_180000_1_5 int_180000_0_65 int_117000_1_15 int_100000_1_15
  int_100000_1_05 int_0_1_15 int_0_1_05 int_150000_0_05 int_150000_0_1 int_150000_0_15
  int_144000_0_05 int_144000_0_1 int_144000_0_15 int_170000_0_15 int_1_0_05
  percent_216000_144000 percent_180000_144000 percent_0

lemma alphonso_market: "base_market_price alphonso = 180000"
  by (simp add: alphonso_def)

lemmas call_eval = respond_to_seller_offer_eq concession_pattern_def
  respond_to_seller_offer_ollama_eq generate_opening_offer_ollama_def ollama_chat_def
  respond_to_buyer_def int_of_mul_def [of _ lit_0_9]
  generate_opening_offer_def anchor_opening_offer_def
  returned_status_def returned_offer_def
  easy_context_def alphonso_market and_then_Inr_eval and_then_Inl_eval float_facts

lemmas session_eval = run_negotiation_test_def run_session_def run_session_upto_def
  run_rounds.simps round_body_def buyer_turn_def initial_state_def make_result_def
  get_opening_price_def YourBuyerAgent_def YourBuyerAgent_ollama_def upt_rec outcome_def
  call_eval

lemmas search_eval = number_at_def message_at_def is_space_def is_digit_def digit_value_def
  int_of_digits_def strip_def

subsection \<open>The budget invariant in the hard scenario\<close>

lemma hard_scenario_runs:
  "\<exists>st. run_session YourBuyerAgent (\<lambda>_. 0) alphonso 162000 147600 = Inr st"
  by (simp add: session_eval cong: and_then_weak_cong let_weak_cong)

theorem budget_invariant_witness:
  "\<exists>st. run_session YourBuyerAgent (\<lambda>_. 0) alphonso 162000 147600 = Inr st \<and>
     (\<forall>offer \<in> set (your_offers (st_context st)). offer \<le> 162000) \<and>
     (\<forall>price. st_final_price st = Some price \<longrightarrow> price \<le> 162000) \<and>
     (\<forall>r price. make_result alphonso 162000 st = Inr r \<longrightarrow> final_price r = Some price \<longrightarrow>
        price \<le> 162000)"
proof -
  from hard_scenario_runs obtain st where
    run: "run_session YourBuyerAgent (\<lambda>_. 0) alphonso 162000 147600 = Inr st" ..
  from run budget_invariant [OF run] show ?thesis by blast
qed

subsection \<open>A session that times out\<close>



subsection \<open>Acceptance\<close>

theorem acceptance_correctness_counterexample:
  "returned_status
     (respond_to_seller_offer_ollama (\<lambda>_. Returns []) (easy_context 10) 200000 []) =
     Inr ACCEPTED \<and>
   200000 \<le> your_budget (easy_context 10) \<and>
   \<not> 200000 \<le> base_market_price (product (easy_context 10))"
  by (simp add: call_eval)

lemma accepted_calls:
  "respond_to_seller_offer (\<lambda>_. 0) (easy_context 2) 144000 [] =
     Inr ((ACCEPTED, 144000, agreed_message 144000), \<lambda>_. 0)"
  "respond_to_seller_offer_ollama (\<lambda>_. Returns []) (easy_context 9) 180000 [] =
     Inr ((ACCEPTED, 180000, accepted_message 180000), \<lambda>_. Returns [])"
  by (simp_all add: call_eval)

theorem acceptance_correctness_witness:
  "respond_to_seller_offer (\<lambda>_. 0) (easy_context 2) 144000 [] =
     Inr ((ACCEPTED, 144000, agreed_message 144000), \<lambda>_. 0) \<and>
   144000 \<le> your_budget (easy_context 2) \<and>
   (\<exists>t. int_mul_float (base_market_price (product (easy_context 2))) lit_0_9 = Inr t \<and>
        int_le_float 144000 t) \<and>
   respond_to_seller_offer_ollama (\<lambda>_. Returns []) (easy_context 9) 180000 [] =
     Inr ((ACCEPTED, 180000, accepted_message 180000), \<lambda>_. Returns []) \<and>
   180000 \<le> your_budget (easy_context 9) \<and>
   180000 \<le> base_market_price (product (easy_context 9))"
  using accepted_calls
    acceptance_correctness [where g = "\<lambda>_. 0" and c = "easy_context 2" and sp = 144000
      and msg = "[]" and offer = 144000 and m = "agreed_message 144000" and g' = "\<lambda>_. 0"]
    acceptance_correctness [where l = "\<lambda>_. Returns []" and c = "easy_context 9"
      and sp = 180000 and msg = "[]" and offer = 180000 and m = "accepted_message 180000"
      and l' = "\<lambda>_. Returns []"]
  by (simp add: easy_context_def)

subsection \<open>Counter offers\<close>




subsection \<open>The final round\<close>

theorem final_round_fallback_counterexample:
  "returned_status (respond_to_seller_offer (\<lambda>_. 0) (easy_context 10) 170000 []) =
     Inr ONGOING \<and>
   current_round (easy_context 10) = 10 \<and>
   170000 \<le> your_budget (easy_context 10)"
  by (simp add: call_eval)

lemma fallback_call:
  "respond_to_seller_offer_ollama (\<lambda>_. Returns []) (easy_context 10) 200000 [] =
     Inr ((ACCEPTED, 200000, fallback_message 200000), \<lambda>_. Returns [])"
  by (simp add: call_eval search_eval)

theorem final_round_fallback_witness:
  "respond_to_seller_offer_ollama (\<lambda>_. Returns []) (easy_context 10) 200000 [] =
     Inr ((ACCEPTED, 200000, fallback_message 200000), \<lambda>_. Returns []) \<and>
   10 \<le> current_round (easy_context 10) \<and> 200000 \<le> your_budget (easy_context 10) \<and>
   respond_to_seller_offer (\<lambda>_. 0) (easy_context 2) 144000 [] =
     Inr ((ACCEPTED, 144000, agreed_message 144000), \<lambda>_. 0) \<and>
   144000 \<le> your_budget (easy_context 2) \<and>
   (\<exists>t. int_mul_float (base_market_price (product (easy_context 2))) lit_0_9 = Inr t \<and>
        int_le_float 144000 t)"
  using fallback_call accepted_calls(1)
    final_round_fallback [where l = "\<lambda>_. Returns []" and c = "easy_context 10"
      and sp = 200000 and msg = "[]" and status = ACCEPTED and offer = 200000
      and m = "fallback_message 200000" and l' = "\<lambda>_. Returns []", THEN conjunct1]
    final_round_fallback [where g = "\<lambda>_. 0" and c = "easy_context 2"
      and sp = 144000 and msg = "[]" and status' = ACCEPTED and offer' = 144000
      and m' = "agreed_message 144000" and g' = "\<lambda>_. 0", THEN conjunct2]
  by (simp add: easy_context_def)

subsection \<open>The external service\<close>




subsection \<open>The seller\<close>





end
